theory Spec2Isabelle
  imports Main "HOL-Library.Word" "HOL-Library.Log_Nat"
begin

unbundle bit_operations_syntax

section \<open>The Shiprocket credential cache\<close>

text \<open>
  \<^verbatim>\<open>index.js\<close> keeps two module-level variables, \<^verbatim>\<open>shiprocketToken\<close> and
  \<^verbatim>\<open>tokenExpiryTime\<close>, both initially \<^verbatim>\<open>null\<close>. They are the only state shared between
  requests. A \<^verbatim>\<open>Date\<close> is modelled by its time value, the milliseconds since the epoch.
\<close>

record cache =
  shiprocketToken :: "string option"
  tokenExpiryTime :: "int option"

definition cold :: cache where
  "cold = \<lparr>shiprocketToken = None, tokenExpiryTime = None\<rparr>"

text \<open>
  What the login request can do. Either \<^verbatim>\<open>fetch\<close>, \<^verbatim>\<open>response.json()\<close> or the property
  access on the parsed body throws an error with some message, or a JSON object \<^verbatim>\<open>data\<close>
  arrives. \<^verbatim>\<open>login_ok\<close> is \<^verbatim>\<open>response.ok\<close> (the HTTP status is 2xx); the function never
  reads it. \<^verbatim>\<open>data_token\<close> and \<^verbatim>\<open>data_message\<close> are the body's \<^verbatim>\<open>token\<close> and
  \<^verbatim>\<open>message\<close> fields, strings when present.
\<close>

record login_response =
  login_ok :: bool
  data_token :: "string option"
  data_message :: "string option"

datatype login_outcome = LoginThrew string | LoginResponded login_response

datatype js_error = Error string

text \<open>
  The outbound calls a handler makes, in the order it makes them: the login request, the
  order-creation request to Shiprocket (with the bearer token it carries), and
  \<^verbatim>\<open>transporter.sendMail\<close> (with the mail's subject).
\<close>

datatype event = LoginCall | CreateOrderCall string | SendMail string

text \<open>JavaScript truthiness of a value that is a string, \<^verbatim>\<open>null\<close> or \<^verbatim>\<open>undefined\<close>.\<close>

fun truthy_str :: "string option \<Rightarrow> bool" where
  "truthy_str None = False"
| "truthy_str (Some s) = (s \<noteq> [])"

text \<open>
  The time zone of the server, as ECMAScript has it: \<open>tz t True\<close> is the offset of local
  time from UTC in force at the UTC instant \<open>t\<close>, \<open>tz t False\<close> the offset that the
  conversion back to UTC takes for the local time \<open>t\<close> (the abstract operation LocalTZA).
\<close>

type_synonym timezone = "int \<Rightarrow> bool \<Rightarrow> int"

definition LocalTime :: "timezone \<Rightarrow> int \<Rightarrow> int" where
  "LocalTime tz t = t + tz t True"

definition UTC :: "timezone \<Rightarrow> int \<Rightarrow> int" where
  "UTC tz t = t - tz t False"

text \<open>
  \<^verbatim>\<open>d.setHours(d.getHours() + h)\<close>: the hour field of the local time of \<open>d\<close> is moved by
  \<open>h\<close> hours, minutes, seconds and milliseconds are kept, and the result is taken back
  to UTC.
\<close>

definition setHoursPlus :: "timezone \<Rightarrow> int \<Rightarrow> int \<Rightarrow> int" where
  "setHoursPlus tz d h = UTC tz (LocalTime tz d + h * 3600000)"

text \<open>A zone whose offset never changes (UTC itself, or a zone without daylight saving).\<close>

definition fixedOffset :: "timezone \<Rightarrow> bool" where
  "fixedOffset tz = (\<forall>t t' b b'. tz t b = tz t' b')"

text \<open>Indian Standard Time, five and a half hours ahead of UTC all year.\<close>

definition istZone :: timezone where
  "istZone t isUTC = 19800000"

text \<open>
  New York under the rules of 2024: five hours behind UTC, four hours behind between
  2024-03-10 07:00 UTC and 2024-11-03 06:00 UTC. Read as an offset for a local time, a
  local time that the spring change skips or the autumn change repeats takes the offset
  in force before the change, so the summer offset applies from 03:00 local time on 10
  March until 02:00 local time on 3 November.
\<close>

definition nyZone :: timezone where
  "nyZone t isUTC =
     (if isUTC then (if 1710054000000 \<le> t \<and> t < 1730613600000 then - 14400000 else - 18000000)
      else (if 1710039600000 \<le> t \<and> t < 1730599200000 then - 14400000 else - 18000000))"

text \<open>A zone all of whose offsets lie less than \<open>d\<close> milliseconds apart.\<close>

definition offsetsWithin :: "timezone \<Rightarrow> int \<Rightarrow> bool" where
  "offsetsWithin tz d = (\<forall>t b t' b'. tz t b - tz t' b' < d)"

text \<open>
  The source comment: "Set token expiry time (typically 24 hours for Shiprocket)"; the
  function itself adds 23 hours, "to be safe".
\<close>

definition vendorLifetimeHours :: int where
  "vendorLifetimeHours = 24"

definition cachedHours :: int where
  "cachedHours = 23"

text \<open>\<^verbatim>\<open>a || b\<close> where \<open>a\<close> is a string, \<^verbatim>\<open>null\<close> or \<^verbatim>\<open>undefined\<close>.\<close>

definition orElse :: "string option \<Rightarrow> string \<Rightarrow> string" where
  "orElse a b = (case a of Some s \<Rightarrow> (if s \<noteq> [] then s else b) | None \<Rightarrow> b)"

text \<open>The test \<^verbatim>\<open>if (data.token)\<close>: the token when it is truthy.\<close>

definition truthyToken :: "string option \<Rightarrow> string option" where
  "truthyToken t = (case t of Some tok \<Rightarrow> (if tok \<noteq> [] then Some tok else None) | None \<Rightarrow> None)"

text \<open>
  The test of line 72,
  \<^verbatim>\<open>shiprocketToken && tokenExpiryTime && currentTime < tokenExpiryTime\<close>,
  with the token that line 74 returns when the test passes.
\<close>

definition cachedToken :: "cache \<Rightarrow> int \<Rightarrow> string option" where
  "cachedToken s currentTime =
     (case shiprocketToken s of
        None \<Rightarrow> None
      | Some tok \<Rightarrow>
          (if tok \<noteq> [] then
             (case tokenExpiryTime s of
                None \<Rightarrow> None
              | Some e \<Rightarrow> (if currentTime < e then Some tok else None))
           else None))"

text \<open>
  \<^verbatim>\<open>getShiprocketToken\<close>. \<open>tz\<close> is the server's time zone, \<open>currentTime\<close> the clock
  read on entry (line 71),
  \<open>issuedAt\<close> the clock read after the login response has been parsed (line 95), and
  \<open>login\<close> what the login request does if it is made. The result is the returned token
  or the thrown error, the cache afterwards, and the calls made.
\<close>

definition getShiprocketToken ::
  "timezone \<Rightarrow> cache \<Rightarrow> int \<Rightarrow> int \<Rightarrow> login_outcome
     \<Rightarrow> (js_error + string) \<times> cache \<times> event list" where
  "getShiprocketToken tz s currentTime issuedAt login =
     (case cachedToken s currentTime of
        Some tok \<Rightarrow> (Inr tok, s, [])
      | None \<Rightarrow>
          (case login of
             LoginThrew msg \<Rightarrow> (Inl (Error msg), s, [LoginCall])
           | LoginResponded data \<Rightarrow>
               (case truthyToken (data_token data) of
                  Some tok \<Rightarrow>
                    (Inr tok,
                     \<lparr>shiprocketToken = Some tok,
                      tokenExpiryTime = Some (setHoursPlus tz issuedAt cachedHours)\<rparr>,
                     [LoginCall])
                | None \<Rightarrow>
                    (Inl (Error (orElse (data_message data)
                                   ''Failed to authenticate with Shiprocket'')),
                     s, [LoginCall]))))"

text \<open>
  A sequence of \<^verbatim>\<open>getShiprocketToken\<close> calls, each with its two clock readings and its
  login outcome, threaded through the cache: the number of login requests each call makes.
\<close>

fun isLogin :: "event \<Rightarrow> bool" where
  "isLogin LoginCall = True"
| "isLogin (CreateOrderCall token) = False"
| "isLogin (SendMail subject) = False"

fun loginCounts ::
  "timezone \<Rightarrow> cache \<Rightarrow> (int \<times> int \<times> login_outcome) list \<Rightarrow> nat list" where
  "loginCounts tz s [] = []"
| "loginCounts tz s ((currentTime, issuedAt, login) # calls) =
     (case getShiprocketToken tz s currentTime issuedAt login of
        (result, s', events) \<Rightarrow> length (filter isLogin events) # loginCounts tz s' calls)"

text \<open>A login that succeeds: a response whose body has a truthy token.\<close>

fun loginSucceeds :: "login_outcome \<Rightarrow> bool" where
  "loginSucceeds (LoginThrew msg) = False"
| "loginSucceeds (LoginResponded data) = truthy_str (data_token data)"

text \<open>
  The login counts as the specification words them, from the expiry of the last refresh
  (\<open>None\<close> for a cold cache): one login on a cold cache, none while the clock is inside
  the validity window, one more at or after the expiry, which opens a new window.
  \<open>expiryOf\<close> gives the end of the window opened by a refresh at a given time of issue.
\<close>

fun specLogins ::
  "(int \<Rightarrow> int) \<Rightarrow> int option \<Rightarrow> (int \<times> int \<times> login_outcome) list \<Rightarrow> nat list" where
  "specLogins expiryOf expiresAt [] = []"
| "specLogins expiryOf None ((now, issuedAt, login) # calls) =
     1 # specLogins expiryOf (Some (expiryOf issuedAt)) calls"
| "specLogins expiryOf (Some e) ((now, issuedAt, login) # calls) =
     (if now < e then 0 # specLogins expiryOf (Some e) calls
      else 1 # specLogins expiryOf (Some (expiryOf issuedAt)) calls)"

section \<open>JavaScript numbers and JSON values\<close>

text \<open>
  A JavaScript number is an IEEE 754 double: a finite value, which is a rational, one of
  the two infinities, or NaN. The two zeros are identified (JSON serialises both as 0).
\<close>

datatype jsnum = Fin rat | PosInf | NegInf | NaN

text \<open>Rounding a rational to an integer, ties to the even neighbour.\<close>

definition round_half_even :: "rat \<Rightarrow> int" where
  "round_half_even x =
     (let f = \<lfloor>x\<rfloor>; r = x - of_int f
      in if r < 1 / 2 then f else if 1 / 2 < r then f + 1 else if even f then f else f + 1)"

text \<open>For \<open>0 < x\<close>, the exponent \<open>e\<close> with \<open>2\<^sup>e \<le> x < 2\<^sup>e\<^sup>+\<^sup>1\<close>.\<close>

definition floor_log2 :: "rat \<Rightarrow> int" where
  "floor_log2 x =
     (case quotient_of x of (p, q) \<Rightarrow>
        (let k = bitlen p - bitlen q in if power_int 2 k \<le> x then k else k - 1))"

text \<open>
  The double nearest to a rational (round to nearest, ties to even): 53 significant bits,
  the unit in the last place never below \<open>2\<^sup>-\<^sup>1\<^sup>0\<^sup>7\<^sup>4\<close>, and overflow to an infinity from
  \<open>2\<^sup>1\<^sup>0\<^sup>2\<^sup>4\<close> on.
\<close>

definition round_double :: "rat \<Rightarrow> jsnum" where
  "round_double x =
     (if x = 0 then Fin 0
      else
        (let a = \<bar>x\<bar>;
             q = max (floor_log2 a - 52) (- 1074);
             y = of_int (round_half_even (a / power_int 2 q)) * power_int 2 q
         in if 2 ^ 1024 \<le> y then (if x < 0 then NegInf else PosInf)
            else Fin (if x < 0 then - y else y)))"

text \<open>The \<^verbatim>\<open>*\<close> operator on two numbers.\<close>

fun js_mult :: "jsnum \<Rightarrow> jsnum \<Rightarrow> jsnum" where
  "js_mult NaN b = NaN"
| "js_mult a NaN = NaN"
| "js_mult (Fin x) (Fin y) = round_double (x * y)"
| "js_mult (Fin x) PosInf = (if x = 0 then NaN else if 0 < x then PosInf else NegInf)"
| "js_mult (Fin x) NegInf = (if x = 0 then NaN else if 0 < x then NegInf else PosInf)"
| "js_mult PosInf (Fin y) = (if y = 0 then NaN else if 0 < y then PosInf else NegInf)"
| "js_mult NegInf (Fin y) = (if y = 0 then NaN else if 0 < y then NegInf else PosInf)"
| "js_mult PosInf PosInf = PosInf"
| "js_mult PosInf NegInf = NegInf"
| "js_mult NegInf PosInf = NegInf"
| "js_mult NegInf NegInf = PosInf"

text \<open>A number with no fractional component (\<^verbatim>\<open>Number.isInteger\<close>).\<close>

fun isInteger :: "jsnum \<Rightarrow> bool" where
  "isInteger (Fin x) = (of_int \<lfloor>x\<rfloor> = x)"
| "isInteger PosInf = False"
| "isInteger NegInf = False"
| "isInteger NaN = False"

text \<open>
  A value found in a parsed JSON body, by what the handlers observe of it: it is absent
  (\<^verbatim>\<open>undefined\<close>); a string; another value that is falsy (\<^verbatim>\<open>null\<close>, \<^verbatim>\<open>false\<close>, 0),
  with the text its conversion to a string gives; another value that is truthy (a number
  other than 0, \<^verbatim>\<open>true\<close>, an array, an object), with that text; or a truthy object whose
  conversion to a primitive throws a TypeError, such as \<^verbatim>\<open>{"toString": 1}\<close>.
\<close>

datatype jsval = Absent | Str string | Falsy string | Truthy string | Unconvertible

fun truthy :: "jsval \<Rightarrow> bool" where
  "truthy Absent = False"
| "truthy (Str s) = (s \<noteq> [])"
| "truthy (Falsy text) = False"
| "truthy (Truthy text) = True"
| "truthy Unconvertible = True"

text \<open>
  Conversion to a string, by \<^verbatim>\<open>+\<close> with a string or inside a template literal;
  \<open>None\<close> when it throws.
\<close>

fun toText :: "jsval \<Rightarrow> string option" where
  "toText Absent = Some ''undefined''"
| "toText (Str s) = Some s"
| "toText (Falsy text) = Some text"
| "toText (Truthy text) = Some text"
| "toText Unconvertible = None"

section \<open>Shipment order creation\<close>

text \<open>
  An element of \<^verbatim>\<open>order_items\<close>: \<^verbatim>\<open>null\<close>; a value without the properties the mail
  reads (a number, a string, a boolean, an array); or an object, with its \<^verbatim>\<open>name\<close>,
  \<^verbatim>\<open>units\<close> and \<^verbatim>\<open>selling_price\<close>.
\<close>

datatype item = ItemNull | ItemScalar | ItemObject jsval jsval jsval

text \<open>
  The \<^verbatim>\<open>length\<close> of a truthy \<^verbatim>\<open>order_items\<close> that is not an array, by the two tests
  made of it: it is \<^verbatim>\<open>=== 0\<close>; it is \<^verbatim>\<open>> 0\<close> (a non-empty string, an object with such
  a \<^verbatim>\<open>length\<close>); the comparison \<^verbatim>\<open>> 0\<close> throws (an object whose \<^verbatim>\<open>length\<close> cannot
  be converted); or neither test holds (a number, \<^verbatim>\<open>true\<close>, an object without
  \<^verbatim>\<open>length\<close>).
\<close>

datatype length_kind = LengthZero | LengthPositive | LengthThrows | LengthOther

datatype order_items_value = ItemsFalsy | ItemsArray "item list" | ItemsOther length_kind

text \<open>The body of \<^verbatim>\<open>POST /shiprocket/create-order\<close>, a JSON object.\<close>

record order_payload =
  order_id :: jsval
  order_date :: jsval
  pickup_location :: jsval
  billing_customer_name :: jsval
  billing_address :: jsval
  billing_city :: jsval
  billing_pincode :: jsval
  billing_state :: jsval
  billing_country :: jsval
  billing_email :: jsval
  billing_phone :: jsval
  order_items :: order_items_value

text \<open>The object \<^verbatim>\<open>{}\<close> that the \<^verbatim>\<open>catch\<close> block takes when there is no body.\<close>

definition emptyPayload :: order_payload where
  "emptyPayload =
     \<lparr>order_id = Absent, order_date = Absent, pickup_location = Absent,
      billing_customer_name = Absent, billing_address = Absent, billing_city = Absent,
      billing_pincode = Absent, billing_state = Absent, billing_country = Absent,
      billing_email = Absent, billing_phone = Absent, order_items = ItemsFalsy\<rparr>"

text \<open>The condition of lines 133 to 137.\<close>

definition missingRequired :: "order_payload \<Rightarrow> bool" where
  "missingRequired orderData =
     (\<not> truthy (order_id orderData) \<or> \<not> truthy (order_date orderData) \<or>
      \<not> truthy (pickup_location orderData) \<or>
      \<not> truthy (billing_customer_name orderData) \<or> \<not> truthy (billing_address orderData) \<or>
      \<not> truthy (billing_city orderData) \<or> \<not> truthy (billing_pincode orderData) \<or>
      \<not> truthy (billing_state orderData) \<or>
      \<not> truthy (billing_country orderData) \<or> \<not> truthy (billing_email orderData) \<or>
      \<not> truthy (billing_phone orderData) \<or>
      (case order_items orderData of
         ItemsFalsy \<Rightarrow> True
       | ItemsArray items \<Rightarrow> items = []
       | ItemsOther len \<Rightarrow> len = LengthZero))"

text \<open>
  \<^verbatim>\<open>sendShiprocketFailureEmail\<close> (lines 205 to 257). Its \<^verbatim>\<open>try\<close> block first builds the
  text of the mail. The customer details convert seven fields, each as
  \<^verbatim>\<open>${field || 'N/A'}\<close>, which throws for a value that cannot be converted. The item
  lines are built when \<^verbatim>\<open>order_items\<close> is truthy and its \<^verbatim>\<open>length > 0\<close>, by
  \<^verbatim>\<open>order_items.map\<close>: that throws for a value that is not an array (it has no
  \<^verbatim>\<open>map\<close>), for a \<^verbatim>\<open>null\<close> element (line 222 reads \<^verbatim>\<open>item.name\<close>), and for an
  element with a property that cannot be converted. Only then is
  \<^verbatim>\<open>transporter.sendMail\<close> called, once. Every exception, also one of \<^verbatim>\<open>sendMail\<close>, is
  caught inside the helper, whose result the handler ignores. The model gives the
  \<^verbatim>\<open>sendMail\<close> calls made; the text of the mail is not modelled, its subject is.
\<close>

definition customerDetailsFormat :: "order_payload \<Rightarrow> bool" where
  "customerDetailsFormat orderData =
     (billing_customer_name orderData \<noteq> Unconvertible \<and>
      billing_email orderData \<noteq> Unconvertible \<and> billing_phone orderData \<noteq> Unconvertible \<and>
      billing_address orderData \<noteq> Unconvertible \<and> billing_city orderData \<noteq> Unconvertible \<and>
      billing_state orderData \<noteq> Unconvertible \<and> billing_pincode orderData \<noteq> Unconvertible)"

fun itemFormats :: "item \<Rightarrow> bool" where
  "itemFormats ItemNull = False"
| "itemFormats ItemScalar = True"
| "itemFormats (ItemObject name units selling_price) =
     (name \<noteq> Unconvertible \<and> units \<noteq> Unconvertible \<and> selling_price \<noteq> Unconvertible)"

fun orderItemsFormat :: "order_items_value \<Rightarrow> bool" where
  "orderItemsFormat ItemsFalsy = True"
| "orderItemsFormat (ItemsArray items) = list_all itemFormats items"
| "orderItemsFormat (ItemsOther LengthZero) = True"
| "orderItemsFormat (ItemsOther LengthPositive) = False"
| "orderItemsFormat (ItemsOther LengthThrows) = False"
| "orderItemsFormat (ItemsOther LengthOther) = True"

definition sendShiprocketFailureEmail :: "string \<Rightarrow> order_payload \<Rightarrow> event list" where
  "sendShiprocketFailureEmail subject orderData =
     (if customerDetailsFormat orderData \<and> orderItemsFormat (order_items orderData)
      then [SendMail subject] else [])"

text \<open>
  The message the handler itself builds before it calls the helper (lines 142, 173 and
  192) converts \<^verbatim>\<open>order_id\<close> and \<^verbatim>\<open>billing_customer_name\<close>.
\<close>

definition messageBuilds :: "order_payload \<Rightarrow> bool" where
  "messageBuilds orderData =
     (order_id orderData \<noteq> Unconvertible \<and> billing_customer_name orderData \<noteq> Unconvertible)"

text \<open>
  What the order-creation request to Shiprocket does if it is made: it throws, or a
  response arrives with its \<^verbatim>\<open>ok\<close> flag and HTTP status.
\<close>

datatype create_outcome = CreateThrew string | CreateResponded bool nat

record response =
  status :: nat
  success :: bool
  message :: string

text \<open>
  The \<^verbatim>\<open>catch\<close> block of the handler (lines 183 to 201), entered with the cache and the
  calls made so far. It takes \<^verbatim>\<open>req.body || {}\<close>, builds its message, mails and answers
  500. When the message cannot be built the exception leaves the handler: nothing is
  mailed and no response is sent (\<open>None\<close>).
\<close>

definition catchBlock ::
  "cache \<Rightarrow> event list \<Rightarrow> order_payload option \<Rightarrow> response option \<times> cache \<times> event list" where
  "catchBlock s calls body =
     (let orderData = (case body of Some d \<Rightarrow> d | None \<Rightarrow> emptyPayload)
      in if messageBuilds orderData then
           (Some \<lparr>status = 500, success = False, message = ''Error creating Shiprocket order''\<rparr>,
            s,
            calls @ sendShiprocketFailureEmail ''Shiprocket Order Creation Failed - Exception''
                      orderData)
         else (None, s, calls))"

text \<open>
  The handler of \<^verbatim>\<open>POST /shiprocket/create-order\<close> (lines 127 to 202). \<open>body\<close> is
  \<^verbatim>\<open>req.body\<close>, \<open>None\<close> when it is \<^verbatim>\<open>undefined\<close>. The first statement awaits
  \<^verbatim>\<open>getShiprocketToken()\<close>; the validation follows. An exception anywhere in the
  \<^verbatim>\<open>try\<close> block goes to the \<^verbatim>\<open>catch\<close> block.
\<close>

definition shiprocket_create_order ::
  "timezone \<Rightarrow> cache \<Rightarrow> int \<Rightarrow> int \<Rightarrow> login_outcome \<Rightarrow> create_outcome
     \<Rightarrow> order_payload option \<Rightarrow> response option \<times> cache \<times> event list" where
  "shiprocket_create_order tz s currentTime issuedAt login create body =
     (case getShiprocketToken tz s currentTime issuedAt login of
        (Inl err, s', calls) \<Rightarrow> catchBlock s' calls body
      | (Inr token, s', calls) \<Rightarrow>
          (case body of
             None \<Rightarrow> catchBlock s' calls body
           | Some orderData \<Rightarrow>
               (if missingRequired orderData then
                  (if messageBuilds orderData then
                     (Some \<lparr>status = 400, success = False,
                            message = ''Missing required order information''\<rparr>,
                      s',
                      calls @ sendShiprocketFailureEmail
                                ''Shiprocket Order Creation Failed - Missing Data'' orderData)
                   else catchBlock s' calls body)
                else
                  (case create of
                     CreateThrew msg \<Rightarrow> catchBlock s' (calls @ [CreateOrderCall token]) body
                   | CreateResponded ok code \<Rightarrow>
                       (if ok then
                          (Some \<lparr>status = 200, success = True,
                                 message = ''Order created successfully on Shiprocket''\<rparr>,
                           s', calls @ [CreateOrderCall token])
                        else if messageBuilds orderData then
                          (Some \<lparr>status = code, success = False,
                                 message = ''Failed to create order on Shiprocket''\<rparr>,
                           s',
                           calls @ [CreateOrderCall token] @
                             sendShiprocketFailureEmail
                               ''Shiprocket Order Creation Failed - API Error'' orderData)
                        else catchBlock s' (calls @ [CreateOrderCall token]) body)))))"

text \<open>
  A payload from which every text of the notification can be built: the handler's
  message and the helper's customer details and item lines.
\<close>

definition notificationBuilds :: "order_payload \<Rightarrow> bool" where
  "notificationBuilds orderData =
     (messageBuilds orderData \<and> customerDetailsFormat orderData \<and>
      orderItemsFormat (order_items orderData))"

text \<open>A network request, as opposed to a mail.\<close>

fun isNetworkCall :: "event \<Rightarrow> bool" where
  "isNetworkCall LoginCall = True"
| "isNetworkCall (CreateOrderCall token) = True"
| "isNetworkCall (SendMail subject) = False"

fun isMail :: "event \<Rightarrow> bool" where
  "isMail (SendMail subject) = True"
| "isMail LoginCall = False"
| "isMail (CreateOrderCall token) = False"

section \<open>Payment order creation\<close>

text \<open>
  What the \<^verbatim>\<open>*\<close> operator makes of the \<^verbatim>\<open>amount\<close> field before it multiplies: the
  number the conversion gives (a JSON number itself, NaN for an absent field), or a
  TypeError for a value that cannot be converted to a primitive.
\<close>

datatype amount_value = AmountNumber jsnum | AmountUnconvertible

text \<open>
  The body of \<^verbatim>\<open>POST /create-order\<close>. The fields other than \<^verbatim>\<open>amount\<close> are strings
  (a list of pairs for \<^verbatim>\<open>notes\<close>) or absent.
\<close>

record create_order_body =
  body_amount :: amount_value
  body_currency :: "string option"
  body_receipt :: "string option"
  body_notes :: "(string \<times> string) list option"

text \<open>
  The \<^verbatim>\<open>options\<close> object passed to \<^verbatim>\<open>razorpay.orders.create\<close>; \<open>notes_field\<close> is its
  \<^verbatim>\<open>notes\<close>.
\<close>

record order_options =
  amount :: jsnum
  currency :: string
  receipt :: string
  notes_field :: "(string \<times> string) list"

text \<open>What \<^verbatim>\<open>razorpay.orders.create\<close> does: it throws, or resolves to an order.\<close>

datatype 'order gateway_outcome = GatewayThrew string | GatewayOrder 'order

record 'order order_reply =
  reply_status :: nat
  reply_success :: bool
  reply_order :: "'order option"

text \<open>Decimal digits of an integer, for \<^verbatim>\<open>`receipt_${Date.now()}`\<close>.\<close>

function show_digits :: "int \<Rightarrow> string" where
  "show_digits n =
     (if n < 10 then [char_of (48 + n)]
      else show_digits (n div 10) @ [char_of (48 + n mod 10)])"
  by pat_completeness auto
termination
  by (relation "measure nat") auto

definition show_int :: "int \<Rightarrow> string" where
  "show_int i = (if i < 0 then CHR ''-'' # show_digits (- i) else show_digits i)"

text \<open>
  The handler of \<^verbatim>\<open>POST /create-order\<close> (lines 699 to 725), with the list of
  \<^verbatim>\<open>razorpay.orders.create\<close> calls it makes. \<open>now\<close> is \<^verbatim>\<open>Date.now()\<close>; \<open>body\<close> is
  \<^verbatim>\<open>req.body\<close>, \<open>None\<close> when it is \<^verbatim>\<open>undefined\<close>. The destructuring of line 701
  throws on an absent body and the product of line 704 on an amount that cannot be
  converted; the \<^verbatim>\<open>catch\<close> block then answers 500 and no call has been made.
\<close>

definition create_order ::
  "int \<Rightarrow> 'order gateway_outcome \<Rightarrow> create_order_body option
     \<Rightarrow> 'order order_reply \<times> order_options list" where
  "create_order now gateway body =
     (case body of
        None \<Rightarrow> (\<lparr>reply_status = 500, reply_success = False, reply_order = None\<rparr>, [])
      | Some b \<Rightarrow>
          (case body_amount b of
             AmountUnconvertible \<Rightarrow>
               (\<lparr>reply_status = 500, reply_success = False, reply_order = None\<rparr>, [])
           | AmountNumber a \<Rightarrow>
               (let options =
                      \<lparr>amount = js_mult a (Fin 100),
                       currency = orElse (body_currency b) ''INR'',
                       receipt = orElse (body_receipt b) (''receipt_'' @ show_int now),
                       notes_field = (case body_notes b of Some n \<Rightarrow> n | None \<Rightarrow> [])\<rparr>
                in case gateway of
                     GatewayOrder order \<Rightarrow>
                       (\<lparr>reply_status = 200, reply_success = True, reply_order = Some order\<rparr>,
                        [options])
                   | GatewayThrew msg \<Rightarrow>
                       (\<lparr>reply_status = 500, reply_success = False, reply_order = None\<rparr>,
                        [options]))))"

text \<open>A number that is negative or not finite; an absent amount multiplies as NaN.\<close>

fun negativeOrNonFinite :: "jsnum \<Rightarrow> bool" where
  "negativeOrNonFinite (Fin x) = (x < 0)"
| "negativeOrNonFinite PosInf = True"
| "negativeOrNonFinite NegInf = True"
| "negativeOrNonFinite NaN = True"

section \<open>HMAC-SHA256, as computed by \<^verbatim>\<open>crypto.createHmac("sha256", key)\<close>\<close>

type_synonym byte = "8 word"
type_synonym w32 = "32 word"
type_synonym hstate = "w32 \<times> w32 \<times> w32 \<times> w32 \<times> w32 \<times> w32 \<times> w32 \<times> w32"

definition K256 :: "w32 list" where
  "K256 =
    [1116352408, 1899447441, 3049323471, 3921009573, 961987163, 1508970993, 2453635748,
     2870763221, 3624381080, 310598401, 607225278, 1426881987, 1925078388, 2162078206,
     2614888103, 3248222580, 3835390401, 4022224774, 264347078, 604807628, 770255983,
     1249150122, 1555081692, 1996064986, 2554220882, 2821834349, 2952996808, 3210313671,
     3336571891, 3584528711, 113926993, 338241895, 666307205, 773529912, 1294757372,
     1396182291, 1695183700, 1986661051, 2177026350, 2456956037, 2730485921, 2820302411,
     3259730800, 3345764771, 3516065817, 3600352804, 4094571909, 275423344, 430227734,
     506948616, 659060556, 883997877, 958139571, 1322822218, 1537002063, 1747873779,
     1955562222, 2024104815, 2227730452, 2361852424, 2428436474, 2756734187, 3204031479,
     3329325298]"

definition H256 :: hstate where
  "H256 = (1779033703, 3144134277, 1013904242, 2773480762,
           1359893119, 2600822924, 528734635, 1541459225)"

definition Ch :: "w32 \<Rightarrow> w32 \<Rightarrow> w32 \<Rightarrow> w32" where
  "Ch x y z = (x AND y) XOR (NOT x AND z)"

definition Maj :: "w32 \<Rightarrow> w32 \<Rightarrow> w32 \<Rightarrow> w32" where
  "Maj x y z = (x AND y) XOR (x AND z) XOR (y AND z)"

definition bsig0 :: "w32 \<Rightarrow> w32" where
  "bsig0 x = word_rotr 2 x XOR word_rotr 13 x XOR word_rotr 22 x"

definition bsig1 :: "w32 \<Rightarrow> w32" where
  "bsig1 x = word_rotr 6 x XOR word_rotr 11 x XOR word_rotr 25 x"

definition ssig0 :: "w32 \<Rightarrow> w32" where
  "ssig0 x = word_rotr 7 x XOR word_rotr 18 x XOR drop_bit 3 x"

definition ssig1 :: "w32 \<Rightarrow> w32" where
  "ssig1 x = word_rotr 17 x XOR word_rotr 19 x XOR drop_bit 10 x"

text \<open>Padding: the byte 0x80, zero bytes up to 56 modulo 64, the bit length on 8 bytes.\<close>

definition sha256_pad :: "byte list \<Rightarrow> byte list" where
  "sha256_pad m =
     m @ [128] @ replicate ((119 - length m mod 64) mod 64) 0 @
     map (\<lambda>i. ucast (drop_bit i (word_of_nat (8 * length m) :: 64 word)))
       [56, 48, 40, 32, 24, 16, 8, 0]"

fun be32 :: "byte list \<Rightarrow> w32 list" where
  "be32 (a # b # c # d # rest) =
     (push_bit 24 (ucast a) OR push_bit 16 (ucast b) OR push_bit 8 (ucast c) OR ucast d) # be32 rest"
| "be32 rest = []"

function chunks :: "nat \<Rightarrow> 'a list \<Rightarrow> 'a list list" where
  "chunks n xs = (if n = 0 \<or> xs = [] then [] else take n xs # chunks n (drop n xs))"
  by pat_completeness auto
termination
  by (relation "measure (\<lambda>(n, xs). length xs)") auto

text \<open>
  The message schedule, from a window of sixteen words \<open>W\<^sub>t \<dots> W\<^sub>t\<^sub>+\<^sub>1\<^sub>5\<close>: emit \<open>W\<^sub>t\<close> and slide.
\<close>

fun schedule :: "nat \<Rightarrow> w32 list \<Rightarrow> w32 list" where
  "schedule 0 w = []"
| "schedule (Suc n) [] = []"
| "schedule (Suc n) (x # w) =
     x # schedule n (w @ [ssig1 (w ! 13) + w ! 8 + ssig0 (w ! 0) + x])"

fun round256 :: "hstate \<Rightarrow> w32 \<times> w32 \<Rightarrow> hstate" where
  "round256 (a, b, c, d, e, f, g, h) (k, w) =
     (let t1 = h + bsig1 e + Ch e f g + k + w;
          t2 = bsig0 a + Maj a b c
      in (t1 + t2, a, b, c, d + t1, e, f, g))"

fun add_state :: "hstate \<Rightarrow> hstate \<Rightarrow> hstate" where
  "add_state (a, b, c, d, e, f, g, h) (a', b', c', d', e', f', g', h') =
     (a + a', b + b', c + c', d + d', e + e', f + f', g + g', h + h')"

definition compress :: "hstate \<Rightarrow> byte list \<Rightarrow> hstate" where
  "compress H block = add_state H (foldl round256 H (zip K256 (schedule 64 (be32 block))))"

definition bytes32 :: "w32 \<Rightarrow> byte list" where
  "bytes32 w = map (\<lambda>i. ucast (drop_bit i w)) [24, 16, 8, 0]"

fun digest :: "hstate \<Rightarrow> byte list" where
  "digest (a, b, c, d, e, f, g, h) =
     bytes32 a @ bytes32 b @ bytes32 c @ bytes32 d @ bytes32 e @ bytes32 f @ bytes32 g @ bytes32 h"

definition sha256 :: "byte list \<Rightarrow> byte list" where
  "sha256 m = digest (foldl compress H256 (chunks 64 (sha256_pad m)))"

definition hmac_sha256 :: "byte list \<Rightarrow> byte list \<Rightarrow> byte list" where
  "hmac_sha256 key msg =
     (let k0 = (if 64 < length key then sha256 key else key);
          k = k0 @ replicate (64 - length k0) 0
      in sha256 (map (\<lambda>b. b XOR 92) k @ sha256 (map (\<lambda>b. b XOR 54) k @ msg)))"

definition hex_digit :: "nat \<Rightarrow> char" where
  "hex_digit n = (if n < 10 then char_of (48 + n) else char_of (87 + n))"

definition hex_byte :: "byte \<Rightarrow> string" where
  "hex_byte b = [hex_digit (unat b div 16), hex_digit (unat b mod 16)]"

definition hex :: "byte list \<Rightarrow> string" where
  "hex bs = concat (map hex_byte bs)"

text \<open>A string as the bytes \<^verbatim>\<open>update\<close> hashes (its UTF-8 encoding).\<close>

definition bytes_of :: "string \<Rightarrow> byte list" where
  "bytes_of s = map of_char s"

text \<open>\<^verbatim>\<open>crypto.createHmac("sha256", key).update(msg).digest("hex")\<close>.\<close>

definition hmac_sha256_hex :: "string \<Rightarrow> string \<Rightarrow> string" where
  "hmac_sha256_hex key msg = hex (hmac_sha256 (bytes_of key) (bytes_of msg))"

section \<open>Payment verification\<close>

text \<open>The body of \<^verbatim>\<open>POST /verify-payment\<close>, a JSON object.\<close>

record verify_body =
  razorpay_order_id :: jsval
  razorpay_payment_id :: jsval
  razorpay_signature :: jsval

text \<open>
  The response; \<open>orderId\<close> and \<open>paymentId\<close> are \<open>Absent\<close> in a body that does not hold
  them.
\<close>

record verify_response = response +
  orderId :: jsval
  paymentId :: jsval

definition verificationError :: verify_response where
  "verificationError =
     \<lparr>status = 500, success = False, message = ''Internal server error during verification'',
      orderId = Absent, paymentId = Absent\<rparr>"

text \<open>
  The handler of \<^verbatim>\<open>POST /verify-payment\<close> (lines 728 to 768). \<open>secret\<close> is
  \<^verbatim>\<open>process.env.RAZORPAY_KEY_SECRET\<close> and \<open>body\<close> is \<^verbatim>\<open>req.body\<close>, each \<open>None\<close> when
  \<^verbatim>\<open>undefined\<close>. In the order of the source: the destructuring of line 730 throws on an
  absent body; the concatenation of line 737 converts the order id, then the payment id,
  and throws on one that cannot be converted; \<^verbatim>\<open>createHmac\<close> throws on an absent key.
  Each exception goes to the \<^verbatim>\<open>catch\<close> block, which answers 500. The comparison
  \<^verbatim>\<open>===\<close> of line 743 holds only for a signature that is a string.
\<close>

definition verify_payment :: "string option \<Rightarrow> verify_body option \<Rightarrow> verify_response" where
  "verify_payment secret body =
     (case body of
        None \<Rightarrow> verificationError
      | Some b \<Rightarrow>
          (case toText (razorpay_order_id b) of
             None \<Rightarrow> verificationError
           | Some order_text \<Rightarrow>
               (case toText (razorpay_payment_id b) of
                  None \<Rightarrow> verificationError
                | Some payment_text \<Rightarrow>
                    (case secret of
                       None \<Rightarrow> verificationError
                     | Some key \<Rightarrow>
                         (let sign = order_text @ ''|'' @ payment_text;
                              expectedSignature = hmac_sha256_hex key sign;
                              isAuthentic = (razorpay_signature b = Str expectedSignature)
                          in if isAuthentic then
                               \<lparr>status = 200, success = True,
                                message = ''Payment verification successful'',
                                orderId = razorpay_order_id b,
                                paymentId = razorpay_payment_id b\<rparr>
                             else
                               \<lparr>status = 400, success = False,
                                message = ''Payment verification failed'',
                                orderId = Absent, paymentId = Absent\<rparr>)))))"

section \<open>Properties of the credential cache\<close>

lemma cachedToken_Some_iff:
  "cachedToken s t = Some tok \<longleftrightarrow>
     shiprocketToken s = Some tok \<and> tok \<noteq> [] \<and> (\<exists>e. tokenExpiryTime s = Some e \<and> t < e)"
  by (auto simp: cachedToken_def split: option.splits)

lemma cachedToken_later:
  "cachedToken s t = None \<Longrightarrow> t \<le> t' \<Longrightarrow> cachedToken s t' = None"
  by (auto simp: cachedToken_def split: option.splits if_splits)

lemma truthyToken_Some_iff: "truthyToken x = Some tok \<longleftrightarrow> x = Some tok \<and> tok \<noteq> []"
  by (auto simp: truthyToken_def split: option.splits)

lemma truthyToken_None_iff: "truthyToken x = None \<longleftrightarrow> \<not> truthy_str x"
  by (cases x) (auto simp: truthyToken_def)

text \<open>In a zone of fixed offset, moving the hour field by \<open>h\<close> adds \<open>h\<close> hours.\<close>

lemma setHoursPlus_fixed:
  assumes "fixedOffset tz"
  shows "setHoursPlus tz d h = d + h * 3600000"
proof -
  from assms have "tz (d + tz d True + h * 3600000) False = tz d True"
    unfolding fixedOffset_def by blast
  then show ?thesis
    by (simp add: setHoursPlus_def UTC_def LocalTime_def)
qed

lemma fixedOffset_istZone: "fixedOffset istZone"
  by (simp add: fixedOffset_def istZone_def)

lemma setHoursPlus_istZone: "setHoursPlus istZone d h = d + h * 3600000"
  using fixedOffset_istZone by (rule setHoursPlus_fixed)

text \<open>What a call does when the cache test fails and the login succeeds.\<close>

lemma getToken_refresh:
  assumes "cachedToken s t = None" and "data_token data = Some tok" and "tok \<noteq> []"
  shows "getShiprocketToken tz s t i (LoginResponded data)
         = (Inr tok, \<lparr>shiprocketToken = Some tok,
                       tokenExpiryTime = Some (setHoursPlus tz i cachedHours)\<rparr>, [LoginCall])"
  using assms by (simp add: getShiprocketToken_def truthyToken_def)

text \<open>The three ways a call of \<^verbatim>\<open>getShiprocketToken\<close> can go.\<close>

lemma getToken_cases:
  obtains (hit) tok where "cachedToken s t = Some tok"
      and "getShiprocketToken tz s t i login = (Inr tok, s, [])"
  | (refresh) tok s' where "cachedToken s t = None" and "loginSucceeds login"
      and "getShiprocketToken tz s t i login = (Inr tok, s', [LoginCall])"
  | (failure) msg where "cachedToken s t = None" and "\<not> loginSucceeds login"
      and "getShiprocketToken tz s t i login = (Inl (Error msg), s, [LoginCall])"
proof (cases "cachedToken s t")
  case (Some tok)
  then have "getShiprocketToken tz s t i login = (Inr tok, s, [])"
    by (simp add: getShiprocketToken_def)
  with Some show ?thesis by (rule hit)
next
  case None
  show ?thesis
  proof (cases login)
    case (LoginThrew msg)
    with None have "getShiprocketToken tz s t i login = (Inl (Error msg), s, [LoginCall])"
      by (simp add: getShiprocketToken_def)
    with None LoginThrew show ?thesis by (intro failure) simp_all
  next
    case (LoginResponded data)
    show ?thesis
    proof (cases "truthyToken (data_token data)")
      case (Some tok)
      with None LoginResponded
      have "getShiprocketToken tz s t i login
            = (Inr tok, \<lparr>shiprocketToken = Some tok,
                          tokenExpiryTime = Some (setHoursPlus tz i cachedHours)\<rparr>, [LoginCall])"
        by (simp add: getShiprocketToken_def)
      moreover from Some LoginResponded have "loginSucceeds login"
        by (simp add: truthyToken_Some_iff)
      ultimately show ?thesis using None by (intro refresh) simp_all
    next
      case nt: None
      with None LoginResponded
      have "getShiprocketToken tz s t i login
            = (Inl (Error (orElse (data_message data)
                             ''Failed to authenticate with Shiprocket'')), s, [LoginCall])"
        by (simp add: getShiprocketToken_def)
      moreover from nt LoginResponded have "\<not> loginSucceeds login"
        by (simp add: truthyToken_None_iff)
      ultimately show ?thesis using None by (intro failure) simp_all
    qed
  qed
qed

text \<open>
  Claim C4. A call made while a cached token exists and the clock is strictly before its
  expiry returns the cached token, makes no login request (no call at all) and leaves
  both cache variables as they were.
\<close>

theorem getToken_cache_hit:
  assumes "shiprocketToken s = Some tok" and "tok \<noteq> []"
    and "tokenExpiryTime s = Some e" and "currentTime < e"
  shows "getShiprocketToken tz s currentTime issuedAt login = (Inr tok, s, [])"
  using assms by (simp add: getShiprocketToken_def cachedToken_def)

theorem getToken_cache_hit_witness:
  "getShiprocketToken istZone
     \<lparr>shiprocketToken = Some ''tok1'', tokenExpiryTime = Some 82800000\<rparr>
     82799999 82799999 (LoginThrew ''offline'')
   = (Inr ''tok1'', \<lparr>shiprocketToken = Some ''tok1'', tokenExpiryTime = Some 82800000\<rparr>, [])"
  using getToken_cache_hit [of
      "\<lparr>shiprocketToken = Some ''tok1'', tokenExpiryTime = Some 82800000\<rparr>"
      "''tok1''" 82800000 82799999 istZone 82799999 "LoginThrew ''offline''"]
  by simp

text \<open>
  Claim C5, as the code has it. Whether a login has failed is decided by the body alone:
  the request threw, or the body has no truthy token; the HTTP status is not consulted.
  Then the call throws an error whose message is the thrown one, or the body's
  \<^verbatim>\<open>message\<close> when it has a truthy one and the fixed text "Failed to authenticate with
  Shiprocket" otherwise; the cache is unchanged; and a next call, at a clock reading that
  is not earlier, makes a login request again.
\<close>

theorem getToken_login_failure:
  assumes miss: "cachedToken s currentTime = None"
    and fail: "login = LoginThrew msg \<or>
               (login = LoginResponded data \<and> \<not> truthy_str (data_token data) \<and>
                msg = orElse (data_message data) ''Failed to authenticate with Shiprocket'')"
    and later: "currentTime \<le> nextTime"
  shows "getShiprocketToken tz s currentTime issuedAt login
           = (Inl (Error msg), s, [LoginCall]) \<and>
         snd (snd (getShiprocketToken tz s nextTime issuedAt' login')) = [LoginCall]"
proof -
  have first: "getShiprocketToken tz s currentTime issuedAt login
                 = (Inl (Error msg), s, [LoginCall])"
  proof (cases login)
    case (LoginThrew m)
    with miss fail show ?thesis by (simp add: getShiprocketToken_def)
  next
    case (LoginResponded d)
    with fail have d: "d = data" and nt: "truthyToken (data_token data) = None"
      and m: "msg = orElse (data_message data) ''Failed to authenticate with Shiprocket''"
      by (simp_all add: truthyToken_None_iff)
    with miss LoginResponded show ?thesis by (simp add: getShiprocketToken_def)
  qed
  have "cachedToken s nextTime = None"
    using miss later by (rule cachedToken_later)
  then have "snd (snd (getShiprocketToken tz s nextTime issuedAt' login')) = [LoginCall]"
    by (simp add: getShiprocketToken_def split: login_outcome.splits option.splits)
  with first show ?thesis by simp
qed

theorem getToken_login_failure_witness:
  "cachedToken cold 1000 = None \<and> (1000 :: int) \<le> 2000 \<and>
   getShiprocketToken istZone cold 1000 1200
     (LoginResponded \<lparr>login_ok = False, data_token = None,
                       data_message = Some ''Invalid email or password''\<rparr>)
   = (Inl (Error ''Invalid email or password''), cold, [LoginCall]) \<and>
   snd (snd (getShiprocketToken istZone cold 2000 2200 (LoginThrew ''offline''))) = [LoginCall]"
  using getToken_login_failure [of cold 1000
      "LoginResponded \<lparr>login_ok = False, data_token = None,
                        data_message = Some ''Invalid email or password''\<rparr>"
      "''Invalid email or password''"
      "\<lparr>login_ok = False, data_token = None, data_message = Some ''Invalid email or password''\<rparr>"
      2000 istZone 1200 2200 "LoginThrew ''offline''"]
  by (simp add: cachedToken_def cold_def orElse_def)

text \<open>
  Claim C5 as stated fails: a response that is not a success (\<^verbatim>\<open>response.ok\<close> is false)
  but whose body carries a token is taken for a successful login; the token is returned
  and cached.
\<close>

theorem getToken_nonsuccess_with_token_counterexample:
  "getShiprocketToken istZone cold 1000 1200
     (LoginResponded \<lparr>login_ok = False, data_token = Some ''tok1'',
                       data_message = Some ''Unauthorized''\<rparr>)
   = (Inr ''tok1'', \<lparr>shiprocketToken = Some ''tok1'', tokenExpiryTime = Some 82801200\<rparr>,
      [LoginCall])"
  by (simp add: getToken_refresh cachedToken_def cold_def setHoursPlus_istZone cachedHours_def)

lemma loginCounts_warm:
  assumes "\<forall>c \<in> set calls. loginSucceeds (snd (snd c))"
    and "shiprocketToken s = Some tok" and "tok \<noteq> []" and "tokenExpiryTime s = Some e"
  shows "loginCounts tz s calls
         = specLogins (\<lambda>issuedAt. setHoursPlus tz issuedAt cachedHours) (Some e) calls"
  using assms
proof (induction calls arbitrary: s tok e)
  case Nil
  then show ?case by simp
next
  case (Cons c calls)
  obtain t i l where c: "c = (t, i, l)" by (cases c)
  show ?case
  proof (cases "t < e")
    case True
    with Cons.prems have "getShiprocketToken tz s t i l = (Inr tok, s, [])"
      by (simp add: getShiprocketToken_def cachedToken_def)
    moreover have "loginCounts tz s calls
        = specLogins (\<lambda>issuedAt. setHoursPlus tz issuedAt cachedHours) (Some e) calls"
      using Cons.IH[of s tok e] Cons.prems by simp
    ultimately show ?thesis using True c by simp
  next
    case False
    from Cons.prems c obtain data
      where l: "l = LoginResponded data" and tr: "truthy_str (data_token data)"
      by (cases l) auto
    then obtain tok' where tok': "data_token data = Some tok'" "tok' \<noteq> []"
      by (cases "data_token data") auto
    let ?s' = "\<lparr>shiprocketToken = Some tok',
                tokenExpiryTime = Some (setHoursPlus tz i cachedHours)\<rparr>"
    from False Cons.prems have "cachedToken s t = None"
      by (simp add: cachedToken_def)
    with l tok' have g: "getShiprocketToken tz s t i l = (Inr tok', ?s', [LoginCall])"
      by (simp add: getToken_refresh)
    have "loginCounts tz ?s' calls
        = specLogins (\<lambda>issuedAt. setHoursPlus tz issuedAt cachedHours)
            (Some (setHoursPlus tz i cachedHours)) calls"
      using Cons.IH[of ?s' tok' "setHoursPlus tz i cachedHours"] Cons.prems tok' by simp
    with g False c show ?thesis by simp
  qed
qed

text \<open>
  Claim C6. In a sequence of calls from a cold cache in which every login succeeds, the
  first call makes exactly one login request, and the calls make the login requests the
  specification counts: none while the clock is strictly before the expiry set by the
  last refresh, one at the first call at or after it. The expiry set by a refresh is the
  one \<^verbatim>\<open>getShiprocketToken\<close> stores, 23 hours of local time after the time of issue.
\<close>

theorem loginCounts_from_cold:
  assumes "\<forall>c \<in> set calls. loginSucceeds (snd (snd c))"
  shows "loginCounts tz cold calls
           = specLogins (\<lambda>issuedAt. setHoursPlus tz issuedAt cachedHours) None calls \<and>
         (calls \<noteq> [] \<longrightarrow> hd (loginCounts tz cold calls) = 1)"
proof (cases calls)
  case Nil
  then show ?thesis by simp
next
  case (Cons c rest)
  obtain t i l where c: "c = (t, i, l)" by (cases c)
  from assms Cons c obtain data
    where l: "l = LoginResponded data" and tr: "truthy_str (data_token data)"
    by (cases l) auto
  then obtain tok' where tok': "data_token data = Some tok'" "tok' \<noteq> []"
    by (cases "data_token data") auto
  let ?s' = "\<lparr>shiprocketToken = Some tok',
              tokenExpiryTime = Some (setHoursPlus tz i cachedHours)\<rparr>"
  have "cachedToken cold t = None"
    by (simp add: cachedToken_def cold_def)
  with l tok' have g: "getShiprocketToken tz cold t i l = (Inr tok', ?s', [LoginCall])"
    by (simp add: getToken_refresh)
  have "loginCounts tz ?s' rest
      = specLogins (\<lambda>issuedAt. setHoursPlus tz issuedAt cachedHours)
          (Some (setHoursPlus tz i cachedHours)) rest"
    using loginCounts_warm[of rest ?s' tok' "setHoursPlus tz i cachedHours" tz] assms Cons tok'
    by simp
  with g Cons c show ?thesis by simp
qed

theorem loginCounts_from_cold_witness:
  "loginCounts istZone cold
     [(0, 100, LoginResponded \<lparr>login_ok = True, data_token = Some ''t1'', data_message = None\<rparr>),
      (82800099, 82800199,
       LoginResponded \<lparr>login_ok = True, data_token = Some ''t2'', data_message = None\<rparr>),
      (82800100, 82800300,
       LoginResponded \<lparr>login_ok = True, data_token = Some ''t3'', data_message = None\<rparr>),
      (165600299, 165600400,
       LoginResponded \<lparr>login_ok = True, data_token = Some ''t4'', data_message = None\<rparr>)]
   = [1, 0, 1, 0]"
  using loginCounts_from_cold [of
     "[(0, 100, LoginResponded \<lparr>login_ok = True, data_token = Some ''t1'', data_message = None\<rparr>),
      (82800099, 82800199,
       LoginResponded \<lparr>login_ok = True, data_token = Some ''t2'', data_message = None\<rparr>),
      (82800100, 82800300,
       LoginResponded \<lparr>login_ok = True, data_token = Some ''t3'', data_message = None\<rparr>),
      (165600299, 165600400,
       LoginResponded \<lparr>login_ok = True, data_token = Some ''t4'', data_message = None\<rparr>)]"
     istZone]
  by (simp add: setHoursPlus_istZone cachedHours_def)

text \<open>
  Claim C7 at a login in New York on 2 November 2024, 13:00 local time (17:00 UTC), the
  day before the clocks go back: the hour field moved by 23 gives noon of 3 November,
  which is 24 hours later. The stored expiry is the time of issue plus 24 hours: not the
  23 hours of the source's comment, and not less than the 24 hours that the comment names
  as the vendor's lifetime.
\<close>

theorem getToken_expiry_autumn_change:
  "getShiprocketToken nyZone cold 1730566799000 1730566800000
     (LoginResponded \<lparr>login_ok = True, data_token = Some ''tok1'', data_message = None\<rparr>)
   = (Inr ''tok1'', \<lparr>shiprocketToken = Some ''tok1'', tokenExpiryTime = Some 1730653200000\<rparr>,
      [LoginCall]) \<and>
   (1730653200000 :: int) = 1730566800000 + vendorLifetimeHours * 3600000 \<and>
   (1730653200000 :: int) \<noteq> 1730566800000 + cachedHours * 3600000"
  by (simp add: getToken_refresh cachedToken_def cold_def setHoursPlus_def UTC_def
      LocalTime_def nyZone_def cachedHours_def vendorLifetimeHours_def)

text \<open>In New York no two offsets are an hour or more apart, let alone 23 hours.\<close>

lemma offsetsWithin_nyZone: "offsetsWithin nyZone (cachedHours * 3600000)"
  by (simp add: offsetsWithin_def nyZone_def cachedHours_def)

text \<open>
  Claim C10, as the code has it. A call that returns a token leaves the stored token equal
  to the returned one and the stored expiry not null. The clock reading the call last
  took is strictly before the stored expiry: the entry reading on a cache hit; the
  reading at the time of issue after a login, on a server all of whose zone offsets lie
  less than 23 hours apart. A cache test at any reading before the stored expiry finds
  the returned token. The clock is not read at the return.
\<close>

theorem getToken_success_leaves_valid_cache:
  assumes ret: "getShiprocketToken tz s currentTime issuedAt login = (Inr tok, s', events)"
  shows "shiprocketToken s' = Some tok \<and>
         (\<exists>e. tokenExpiryTime s' = Some e \<and>
              (events = [] \<longrightarrow> currentTime < e) \<and>
              (events \<noteq> [] \<longrightarrow>
                 e = setHoursPlus tz issuedAt cachedHours \<and>
                 (offsetsWithin tz (cachedHours * 3600000) \<longrightarrow> issuedAt < e)) \<and>
              (\<forall>reading. reading < e \<longrightarrow> cachedToken s' reading = Some tok))"
proof (cases "cachedToken s currentTime")
  case (Some t)
  with ret have "t = tok" "s' = s" "events = []"
    by (simp_all add: getShiprocketToken_def)
  with Some show ?thesis by (auto simp: cachedToken_Some_iff)
next
  case None
  with ret obtain data where l: "login = LoginResponded data"
    by (cases login) (simp_all add: getShiprocketToken_def)
  from None ret l have tt: "truthyToken (data_token data) = Some tok"
    by (cases "truthyToken (data_token data)") (simp_all add: getShiprocketToken_def)
  with None ret l have s': "s' = \<lparr>shiprocketToken = Some tok,
      tokenExpiryTime = Some (setHoursPlus tz issuedAt cachedHours)\<rparr>"
    and ev: "events = [LoginCall]"
    by (simp_all add: getShiprocketToken_def)
  from tt have ne: "tok \<noteq> []" by (simp add: truthyToken_Some_iff)
  have margin: "issuedAt < setHoursPlus tz issuedAt cachedHours"
    if "offsetsWithin tz (cachedHours * 3600000)"
  proof -
    from that have "tz (issuedAt + tz issuedAt True + cachedHours * 3600000) False
        - tz issuedAt True < cachedHours * 3600000"
      unfolding offsetsWithin_def by blast
    then show ?thesis
      by (simp add: setHoursPlus_def UTC_def LocalTime_def)
  qed
  from s' ev ne margin show ?thesis
    by (simp add: cachedToken_def)
qed

theorem getToken_success_leaves_valid_cache_witness:
  "getShiprocketToken nyZone cold 1710003599000 1710003600000
     (LoginResponded \<lparr>login_ok = True, data_token = Some ''tok1'', data_message = None\<rparr>)
     = (Inr ''tok1'', \<lparr>shiprocketToken = Some ''tok1'', tokenExpiryTime = Some 1710082800000\<rparr>,
        [LoginCall]) \<and>
   offsetsWithin nyZone (cachedHours * 3600000) \<and>
   (1710003600000 :: int) < 1710082800000 \<and>
   cachedToken \<lparr>shiprocketToken = Some ''tok1'', tokenExpiryTime = Some 1710082800000\<rparr>
     1710003600000 = Some ''tok1''"
  using getToken_success_leaves_valid_cache [of nyZone cold 1710003599000 1710003600000
      "LoginResponded \<lparr>login_ok = True, data_token = Some ''tok1'', data_message = None\<rparr>"
      "''tok1''" "\<lparr>shiprocketToken = Some ''tok1'', tokenExpiryTime = Some 1710082800000\<rparr>"
      "[LoginCall]"]
    offsetsWithin_nyZone
  by (simp add: getToken_refresh cachedToken_def cold_def setHoursPlus_def UTC_def
      LocalTime_def nyZone_def cachedHours_def)

text \<open>
  Claim C10 as stated fails on a cache hit: a call entered one millisecond before the
  stored expiry returns the cached token and leaves the cache as it was; at a return one
  millisecond later the clock is not before the stored expiry and the cache test fails.
\<close>

theorem getToken_return_at_expiry_counterexample:
  "getShiprocketToken istZone
     \<lparr>shiprocketToken = Some ''tok1'', tokenExpiryTime = Some 82801200\<rparr>
     82801199 82801199 (LoginThrew ''offline'')
     = (Inr ''tok1'', \<lparr>shiprocketToken = Some ''tok1'', tokenExpiryTime = Some 82801200\<rparr>, []) \<and>
   \<not> (82801200 :: int) < 82801200 \<and>
   cachedToken \<lparr>shiprocketToken = Some ''tok1'', tokenExpiryTime = Some 82801200\<rparr> 82801200
     = None"
  by (simp add: getShiprocketToken_def cachedToken_def)

section \<open>Properties of shipment order creation\<close>

text \<open>
  Claim C3, as the code has it. A request whose payload misses a required field, and from
  whose payload the text of the notification can be built, is rejected without any
  order-creation request to Shiprocket and with exactly one mail attempt. The handler asks
  for the token before it validates, so the login request is made first whenever the
  cache does not hold a valid token; only with a valid cached token is the request
  rejected with no network call at all. When the token is obtained (from the cache or by
  a login that succeeds) the answer is 400 "Missing required order information" and the
  mail is the "Missing Data" one; when the login fails the answer is 500 and the mail is
  the "Exception" one.
\<close>

theorem shiprocket_order_missing_field:
  assumes "missingRequired orderData" and "notificationBuilds orderData"
    and "shiprocket_create_order tz s currentTime issuedAt login create (Some orderData)
         = (res, s', events)"
  shows "(\<exists>r. res = Some r \<and> success r = False) \<and>
         length (filter isMail events) = 1 \<and>
         (\<forall>token. CreateOrderCall token \<notin> set events) \<and>
         filter isNetworkCall events
           = (if cachedToken s currentTime = None then [LoginCall] else []) \<and>
         (cachedToken s currentTime \<noteq> None \<longrightarrow>
            events = [SendMail ''Shiprocket Order Creation Failed - Missing Data''] \<and> s' = s) \<and>
         (cachedToken s currentTime \<noteq> None \<or> loginSucceeds login \<longrightarrow>
            res = Some \<lparr>status = 400, success = False,
                         message = ''Missing required order information''\<rparr> \<and>
            last events = SendMail ''Shiprocket Order Creation Failed - Missing Data'') \<and>
         (cachedToken s currentTime = None \<and> \<not> loginSucceeds login \<longrightarrow>
            res = Some \<lparr>status = 500, success = False,
                         message = ''Error creating Shiprocket order''\<rparr> \<and>
            events = [LoginCall, SendMail ''Shiprocket Order Creation Failed - Exception''] \<and>
            s' = s)"
proof -
  from assms(2) have mail: "sendShiprocketFailureEmail subject orderData = [SendMail subject]"
    for subject
    by (simp add: notificationBuilds_def sendShiprocketFailureEmail_def)
  from assms(2) have msg: "messageBuilds orderData"
    by (simp add: notificationBuilds_def)
  show ?thesis
  proof (cases rule: getToken_cases[of s currentTime tz issuedAt login])
    case (hit tok)
    with assms(1,3) mail msg show ?thesis
      by (auto simp: shiprocket_create_order_def)
  next
    case (refresh tok s'')
    with assms(1,3) mail msg show ?thesis
      by (auto simp: shiprocket_create_order_def)
  next
    case (failure m)
    with assms(1,3) mail msg show ?thesis
      by (auto simp: shiprocket_create_order_def catchBlock_def)
  qed
qed

theorem shiprocket_order_missing_field_witness:
  "missingRequired \<lparr>order_id = Str ''224-447'', order_date = Str ''2024-05-24 11:11'',
       pickup_location = Str ''Primary'', billing_customer_name = Str ''Naruto'',
       billing_address = Str ''House 221B, Leaf Village'', billing_city = Str ''New Delhi'',
       billing_pincode = Absent, billing_state = Str ''Delhi'',
       billing_country = Str ''India'', billing_email = Str ''naruto@uzumaki.com'',
       billing_phone = Truthy ''9876543210'',
       order_items = ItemsArray [ItemObject (Str ''Kunai'') (Truthy ''10'') (Truthy ''900'')]\<rparr> \<and>
   notificationBuilds \<lparr>order_id = Str ''224-447'', order_date = Str ''2024-05-24 11:11'',
       pickup_location = Str ''Primary'', billing_customer_name = Str ''Naruto'',
       billing_address = Str ''House 221B, Leaf Village'', billing_city = Str ''New Delhi'',
       billing_pincode = Absent, billing_state = Str ''Delhi'',
       billing_country = Str ''India'', billing_email = Str ''naruto@uzumaki.com'',
       billing_phone = Truthy ''9876543210'',
       order_items = ItemsArray [ItemObject (Str ''Kunai'') (Truthy ''10'') (Truthy ''900'')]\<rparr> \<and>
   shiprocket_create_order istZone
     \<lparr>shiprocketToken = Some ''tok1'', tokenExpiryTime = Some 82801200\<rparr>
     5000 5000 (LoginThrew ''offline'') (CreateResponded True 200)
     (Some \<lparr>order_id = Str ''224-447'', order_date = Str ''2024-05-24 11:11'',
       pickup_location = Str ''Primary'', billing_customer_name = Str ''Naruto'',
       billing_address = Str ''House 221B, Leaf Village'', billing_city = Str ''New Delhi'',
       billing_pincode = Absent, billing_state = Str ''Delhi'',
       billing_country = Str ''India'', billing_email = Str ''naruto@uzumaki.com'',
       billing_phone = Truthy ''9876543210'',
       order_items = ItemsArray [ItemObject (Str ''Kunai'') (Truthy ''10'') (Truthy ''900'')]\<rparr>)
   = (Some \<lparr>status = 400, success = False, message = ''Missing required order information''\<rparr>,
      \<lparr>shiprocketToken = Some ''tok1'', tokenExpiryTime = Some 82801200\<rparr>,
      [SendMail ''Shiprocket Order Creation Failed - Missing Data''])"
  using shiprocket_order_missing_field [of
     "\<lparr>order_id = Str ''224-447'', order_date = Str ''2024-05-24 11:11'',
       pickup_location = Str ''Primary'', billing_customer_name = Str ''Naruto'',
       billing_address = Str ''House 221B, Leaf Village'', billing_city = Str ''New Delhi'',
       billing_pincode = Absent, billing_state = Str ''Delhi'',
       billing_country = Str ''India'', billing_email = Str ''naruto@uzumaki.com'',
       billing_phone = Truthy ''9876543210'',
       order_items = ItemsArray [ItemObject (Str ''Kunai'') (Truthy ''10'') (Truthy ''900'')]\<rparr>"
     istZone "\<lparr>shiprocketToken = Some ''tok1'', tokenExpiryTime = Some 82801200\<rparr>"
     5000 5000 "LoginThrew ''offline''" "CreateResponded True 200"
     "Some \<lparr>status = 400, success = False, message = ''Missing required order information''\<rparr>"
     "\<lparr>shiprocketToken = Some ''tok1'', tokenExpiryTime = Some 82801200\<rparr>"
     "[SendMail ''Shiprocket Order Creation Failed - Missing Data'']"]
  by (simp add: shiprocket_create_order_def getShiprocketToken_def cachedToken_def
      missingRequired_def notificationBuilds_def messageBuilds_def customerDetailsFormat_def
      sendShiprocketFailureEmail_def)

text \<open>
  Claim C3 as stated fails twice. On a cold cache the login request goes out before the
  payload without \<^verbatim>\<open>billing_pincode\<close> is rejected. And with a valid cached token, a
  payload without \<^verbatim>\<open>billing_pincode\<close> whose \<^verbatim>\<open>order_items\<close> is \<^verbatim>\<open>[null]\<close> is rejected
  with no mail attempt at all: the helper throws on the \<^verbatim>\<open>null\<close> element before it
  reaches \<^verbatim>\<open>sendMail\<close>.
\<close>

theorem shiprocket_order_login_first_counterexample:
  "shiprocket_create_order istZone cold 1000 1200
     (LoginResponded \<lparr>login_ok = True, data_token = Some ''tok1'', data_message = None\<rparr>)
     (CreateResponded True 200)
     (Some \<lparr>order_id = Str ''224-447'', order_date = Str ''2024-05-24 11:11'',
       pickup_location = Str ''Primary'', billing_customer_name = Str ''Naruto'',
       billing_address = Str ''House 221B, Leaf Village'', billing_city = Str ''New Delhi'',
       billing_pincode = Absent, billing_state = Str ''Delhi'',
       billing_country = Str ''India'', billing_email = Str ''naruto@uzumaki.com'',
       billing_phone = Truthy ''9876543210'',
       order_items = ItemsArray [ItemObject (Str ''Kunai'') (Truthy ''10'') (Truthy ''900'')]\<rparr>)
   = (Some \<lparr>status = 400, success = False, message = ''Missing required order information''\<rparr>,
      \<lparr>shiprocketToken = Some ''tok1'', tokenExpiryTime = Some 82801200\<rparr>,
      [LoginCall, SendMail ''Shiprocket Order Creation Failed - Missing Data'']) \<and>
   shiprocket_create_order istZone
     \<lparr>shiprocketToken = Some ''tok1'', tokenExpiryTime = Some 82801200\<rparr>
     5000 5000 (LoginThrew ''offline'') (CreateResponded True 200)
     (Some \<lparr>order_id = Str ''224-447'', order_date = Str ''2024-05-24 11:11'',
       pickup_location = Str ''Primary'', billing_customer_name = Str ''Naruto'',
       billing_address = Str ''House 221B, Leaf Village'', billing_city = Str ''New Delhi'',
       billing_pincode = Absent, billing_state = Str ''Delhi'',
       billing_country = Str ''India'', billing_email = Str ''naruto@uzumaki.com'',
       billing_phone = Truthy ''9876543210'',
       order_items = ItemsArray [ItemNull]\<rparr>)
   = (Some \<lparr>status = 400, success = False, message = ''Missing required order information''\<rparr>,
      \<lparr>shiprocketToken = Some ''tok1'', tokenExpiryTime = Some 82801200\<rparr>,
      [])"
  by (simp add: shiprocket_create_order_def getShiprocketToken_def truthyToken_def
      cachedToken_def cold_def setHoursPlus_istZone cachedHours_def missingRequired_def
      messageBuilds_def customerDetailsFormat_def sendShiprocketFailureEmail_def)

section \<open>Properties of the amount conversion\<close>

text \<open>An integer below \<open>2\<^sup>5\<^sup>3\<close> in magnitude is a double, so rounding leaves it alone.\<close>

lemma round_half_even_of_int: "round_half_even (of_int m) = m"
  by (simp add: round_half_even_def)

lemma floor_log2_of_int:
  assumes "0 < n"
  shows "floor_log2 (of_int n) = bitlen n - 1"
proof -
  from assms have b: "1 \<le> bitlen n"
    using bitlen_ge_iff_power[of 1 n] by simp
  from bitlen_bounds[OF assms] have "(2::int) ^ nat (bitlen n - 1) \<le> n" by simp
  then have "(of_int ((2::int) ^ nat (bitlen n - 1)) :: rat) \<le> of_int n"
    by (simp only: of_int_le_iff)
  then have "(2::rat) ^ nat (bitlen n - 1) \<le> of_int n" by simp
  with b have "power_int (2::rat) (bitlen n - 1) \<le> of_int n"
    by (simp add: power_int_def)
  moreover have "bitlen 1 = 1"
    by (simp add: bitlen_alt_def)
  ultimately show ?thesis
    by (simp add: floor_log2_def)
qed

lemma round_double_nat:
  assumes pos: "0 < m" and small: "m < 2 ^ 53"
  shows "max (floor_log2 (of_int m) - 52) (- 1074) \<le> 0"
proof -
  from small have "bitlen m \<le> 53"
    using bitlen_le_iff_power[of m 53] by simp
  with pos show ?thesis by (simp add: floor_log2_of_int)
qed

lemma scale_exact:
  assumes "q \<le> 0"
  shows "of_int (round_half_even (of_int m / power_int 2 q)) * power_int (2::rat) q = of_int m"
proof -
  define j where "j = nat (- q)"
  with assms have q: "q = - int j" by simp
  have "(of_int m :: rat) / power_int 2 q = of_int (m * 2 ^ j)"
    by (simp add: q power_int_minus field_simps)
  then have "round_half_even (of_int m / power_int 2 q) = m * 2 ^ j"
    by (simp only: round_half_even_of_int)
  then show ?thesis
    by (simp add: q power_int_minus field_simps)
qed

lemma round_double_of_int:
  assumes "\<bar>n\<bar> < 2 ^ 53"
  shows "round_double (of_int n) = Fin (of_int n)"
proof (cases "n = 0")
  case True
  then show ?thesis by (simp add: round_double_def)
next
  case False
  define m where "m = \<bar>n\<bar>"
  with False assms have m: "0 < m" "m < 2 ^ 53" by simp_all
  have abs: "\<bar>of_int n :: rat\<bar> = of_int m" by (simp add: m_def)
  let ?q = "max (floor_log2 (of_int m) - 52) (- 1074)"
  have q: "?q \<le> 0" using m by (rule round_double_nat)
  have y: "of_int (round_half_even (of_int m / power_int 2 ?q)) * power_int (2::rat) ?q = of_int m"
    using q by (rule scale_exact)
  have "(of_int m :: rat) < of_int ((2::int) ^ 1024)"
    using m(2) by (simp only: of_int_less_iff) (simp)
  then have nov: "\<not> (2::rat) ^ 1024 \<le> of_int m" by simp
  have sgn: "(if (of_int n :: rat) < 0 then - of_int m else of_int m) = (of_int n :: rat)"
    by (simp add: m_def)
  from False have nz: "(of_int n :: rat) \<noteq> 0" by simp
  show ?thesis
    unfolding round_double_def Let_def abs y using nz nov sgn by (simp only: if_False)
qed

lemma js_mult_100_whole:
  assumes "\<bar>n\<bar> \<le> 90071992547409"
  shows "js_mult (Fin (of_int n)) (Fin 100) = Fin (of_int (100 * n))"
proof -
  from assms have "\<bar>100 * n\<bar> < 2 ^ 53" by simp
  then have "round_double (of_int (100 * n)) = Fin (of_int (100 * n))"
    by (rule round_double_of_int)
  moreover have "(of_int n :: rat) * 100 = of_int (100 * n)" by simp
  ultimately show ?thesis by (simp only: js_mult.simps)
qed

text \<open>
  Claim C8 at its own example. JSON parsing gives for \<^verbatim>\<open>19.99\<close> the double nearest to
  it; the handler multiplies by 100 and sends the product, \<open>1999 - 2\<^sup>-\<^sup>4\<^sup>2\<close> (printed
  1998.9999999999998): not 1999 and not an integer, where the comment of line 704 says
  that the amount is converted to paise, the smallest currency unit.
\<close>

theorem create_order_19_99_sent:
  "map amount (snd (create_order 0 (GatewayOrder ''order_1'')
      (Some \<lparr>body_amount = AmountNumber (round_double (1999 / 100)),
              body_currency = Some ''INR'', body_receipt = Some ''rcpt_1'',
              body_notes = None\<rparr>)))
     = [Fin (8791694975696895 / 4398046511104)] \<and>
   Fin (8791694975696895 / 4398046511104) \<noteq> Fin 1999 \<and>
   isInteger (Fin (8791694975696895 / 4398046511104)) = False"
  by code_simp

text \<open>
  Claim C9, as the code has it. For an amount that is a negative or non-finite number the
  handler validates nothing: it makes exactly one \<^verbatim>\<open>razorpay.orders.create\<close> call (for a
  negative whole amount with 100 times the amount, an infinity or NaN is passed on as
  such). It raises no error of its own: the answer is 200 with the order when the gateway
  call resolves and 500 when the gateway call throws.
\<close>

theorem create_order_no_validation:
  assumes "body_amount b = AmountNumber a" and "negativeOrNonFinite a"
  shows
  "length (snd (create_order now gateway (Some b))) = 1 \<and>
   (a = Fin (of_int n) \<and> - 90071992547409 \<le> n \<longrightarrow>
      map amount (snd (create_order now gateway (Some b))) = [Fin (of_int (100 * n))]) \<and>
   (a = PosInf \<longrightarrow> map amount (snd (create_order now gateway (Some b))) = [PosInf]) \<and>
   (a = NegInf \<longrightarrow> map amount (snd (create_order now gateway (Some b))) = [NegInf]) \<and>
   (a = NaN \<longrightarrow> map amount (snd (create_order now gateway (Some b))) = [NaN]) \<and>
   (gateway = GatewayOrder order \<longrightarrow>
      fst (create_order now gateway (Some b))
        = \<lparr>reply_status = 200, reply_success = True, reply_order = Some order\<rparr>) \<and>
   (gateway = GatewayThrew msg \<longrightarrow>
      fst (create_order now gateway (Some b))
        = \<lparr>reply_status = 500, reply_success = False, reply_order = None\<rparr>)"
proof -
  have sent: "map amount (snd (create_order now gateway (Some b))) = [js_mult a (Fin 100)]"
    using assms(1) by (cases gateway) (simp_all add: create_order_def Let_def)
  have l: "length (snd (create_order now gateway (Some b))) = 1"
    using assms(1) by (cases gateway) (simp_all add: create_order_def Let_def)
  have whole: "a = Fin (of_int n) \<and> - 90071992547409 \<le> n \<longrightarrow>
      js_mult a (Fin 100) = Fin (of_int (100 * n))"
  proof
    assume h: "a = Fin (of_int n) \<and> - 90071992547409 \<le> n"
    with assms(2) have "n < 0" by simp
    with h have "\<bar>n\<bar> \<le> 90071992547409" by simp
    then have "js_mult (Fin (of_int n)) (Fin 100) = Fin (of_int (100 * n))"
      by (rule js_mult_100_whole)
    with h show "js_mult a (Fin 100) = Fin (of_int (100 * n))" by simp
  qed
  have r: "gateway = GatewayOrder order \<longrightarrow>
      fst (create_order now gateway (Some b))
        = \<lparr>reply_status = 200, reply_success = True, reply_order = Some order\<rparr>"
    using assms(1) by (simp add: create_order_def Let_def)
  have t: "gateway = GatewayThrew msg \<longrightarrow>
      fst (create_order now gateway (Some b))
        = \<lparr>reply_status = 500, reply_success = False, reply_order = None\<rparr>"
    using assms(1) by (simp add: create_order_def Let_def)
  show ?thesis
    unfolding sent using l whole r t by (auto simp del: of_int_mult)
qed

theorem create_order_no_validation_witness:
  "negativeOrNonFinite (Fin (- 7)) \<and> (- 90071992547409 :: int) \<le> - 7 \<and>
   map amount (snd (create_order 0 (GatewayThrew ''amount must be positive'' :: string gateway_outcome)
      (Some \<lparr>body_amount = AmountNumber (Fin (- 7)), body_currency = None, body_receipt = None,
              body_notes = None\<rparr>))) = [Fin (- 700)] \<and>
   fst (create_order 0 (GatewayThrew ''amount must be positive'' :: string gateway_outcome)
      (Some \<lparr>body_amount = AmountNumber (Fin (- 7)), body_currency = None, body_receipt = None,
              body_notes = None\<rparr>))
     = \<lparr>reply_status = 500, reply_success = False, reply_order = None\<rparr>"
  using create_order_no_validation [of
      "\<lparr>body_amount = AmountNumber (Fin (- 7)), body_currency = None, body_receipt = None,
        body_notes = None\<rparr>" "Fin (- 7)" 0
      "GatewayThrew ''amount must be positive'' :: string gateway_outcome"
      "- 7" "''order_1''" "''amount must be positive''",
      THEN conjunct2]
  by simp

text \<open>
  Claim C9 as stated fails at its own example: for the amount -1 the order-creation call
  is made, with the amount -100, and the handler answers 200 with the gateway's order.
\<close>

theorem create_order_negative_counterexample:
  "create_order 1730000000000 (GatewayOrder ''order_1'')
      (Some \<lparr>body_amount = AmountNumber (Fin (- 1)), body_currency = Some ''INR'',
              body_receipt = None, body_notes = None\<rparr>)
   = (\<lparr>reply_status = 200, reply_success = True, reply_order = Some ''order_1''\<rparr>,
      [\<lparr>amount = Fin (- 100), currency = ''INR'', receipt = ''receipt_1730000000000'',
        notes_field = []\<rparr>])"
  by code_simp

section \<open>Properties of payment verification\<close>

text \<open>
  The vector of the specification: key \<^verbatim>\<open>testsecret\<close>, message
  \<^verbatim>\<open>order_ABC123|pay_XYZ789\<close>.
\<close>

lemma hmac_golden_vector:
  "hmac_sha256_hex ''testsecret'' ''order_ABC123|pay_XYZ789''
   = ''8ab882b69975648bd036bb84b853484100f7addce5cead23e8a2d9ffe5ba21c8''"
  by code_simp

text \<open>
  Claim C1, as the code has it. With the three fields present and the secret configured,
  the verdict is authentic if and only if the hex HMAC-SHA256 of
  \<^verbatim>\<open>orderId + "|" + paymentId\<close> under the secret is string-equal to the client's
  signature. An authentic result (200) echoes \<^verbatim>\<open>orderId\<close> and \<^verbatim>\<open>paymentId\<close>; a
  result that is not authentic (400) carries the verdict and the message only.
\<close>

theorem verify_payment_verdict:
  assumes "razorpay_order_id b = Str oid" and "razorpay_payment_id b = Str pid"
    and "razorpay_signature b = Str sig"
  shows "(success (verify_payment (Some key) (Some b)) \<longleftrightarrow>
            hmac_sha256_hex key (oid @ ''|'' @ pid) = sig) \<and>
         (hmac_sha256_hex key (oid @ ''|'' @ pid) = sig \<longrightarrow>
            verify_payment (Some key) (Some b)
              = \<lparr>status = 200, success = True, message = ''Payment verification successful'',
                 orderId = Str oid, paymentId = Str pid\<rparr>) \<and>
         (hmac_sha256_hex key (oid @ ''|'' @ pid) \<noteq> sig \<longrightarrow>
            verify_payment (Some key) (Some b)
              = \<lparr>status = 400, success = False, message = ''Payment verification failed'',
                 orderId = Absent, paymentId = Absent\<rparr>)"
  using assms by (auto simp: verify_payment_def Let_def)

theorem verify_payment_verdict_witness:
  "verify_payment (Some ''testsecret'')
     (Some \<lparr>razorpay_order_id = Str ''order_ABC123'', razorpay_payment_id = Str ''pay_XYZ789'',
            razorpay_signature = Str ''8ab882b69975648bd036bb84b853484100f7addce5cead23e8a2d9ffe5ba21c8''\<rparr>)
   = \<lparr>status = 200, success = True, message = ''Payment verification successful'',
      orderId = Str ''order_ABC123'', paymentId = Str ''pay_XYZ789''\<rparr>"
  using verify_payment_verdict [of
     "\<lparr>razorpay_order_id = Str ''order_ABC123'', razorpay_payment_id = Str ''pay_XYZ789'',
      razorpay_signature = Str ''8ab882b69975648bd036bb84b853484100f7addce5cead23e8a2d9ffe5ba21c8''\<rparr>"
     "''order_ABC123''" "''pay_XYZ789''" "''8ab882b69975648bd036bb84b853484100f7addce5cead23e8a2d9ffe5ba21c8''" "''testsecret''"]
    hmac_golden_vector
  by simp

text \<open>
  Claim C1 as stated fails for a mismatch: with one character of the signature changed,
  the result holds neither \<^verbatim>\<open>orderId\<close> nor \<^verbatim>\<open>paymentId\<close>.
\<close>

theorem verify_payment_no_echo_counterexample:
  "verify_payment (Some ''testsecret'')
     (Some \<lparr>razorpay_order_id = Str ''order_ABC123'', razorpay_payment_id = Str ''pay_XYZ789'',
            razorpay_signature =
              Str ''9ab882b69975648bd036bb84b853484100f7addce5cead23e8a2d9ffe5ba21c8''\<rparr>)
   = \<lparr>status = 400, success = False, message = ''Payment verification failed'',
      orderId = Absent, paymentId = Absent\<rparr>"
  by (simp add: verify_payment_def Let_def hmac_golden_vector)

text \<open>The handler answers 200, 400 or the 500 of its \<^verbatim>\<open>catch\<close> block.\<close>

lemma verify_payment_status:
  "status (verify_payment secret body) = 500 \<longleftrightarrow>
     secret = None \<or> body = None \<or>
     (\<exists>b. body = Some b \<and>
          (razorpay_order_id b = Unconvertible \<or> razorpay_payment_id b = Unconvertible))"
proof -
  have conv: "toText v = None \<longleftrightarrow> v = Unconvertible" for v
    by (cases v) simp_all
  show ?thesis
  proof (cases body)
    case None
    then show ?thesis by (simp add: verify_payment_def verificationError_def)
  next
    case (Some b)
    then show ?thesis
      using conv[of "razorpay_order_id b"] conv[of "razorpay_payment_id b"]
      by (auto simp: verify_payment_def verificationError_def Let_def split: option.splits)
  qed
qed

text \<open>
  Claim C2, as the code has it. A signature mismatch never gives an error outcome: with
  the body present, both identifiers convertible and the secret configured, every
  signature that differs from the expected one gives the normal verdict that is not
  authentic (400). The error outcome (500) arises exactly when the secret is not
  available, the request has no body, or the order id or payment id cannot be converted
  to a string. A missing field is not an error: a missing identifier enters the signed
  string as the text \<^verbatim>\<open>undefined\<close>, and a missing signature equals no expected value, so
  the outcome is again the 400 verdict.
\<close>

theorem verify_payment_errors:
  "(status (verify_payment secret body) = 500 \<longleftrightarrow>
      secret = None \<or> body = None \<or>
      (\<exists>b. body = Some b \<and>
           (razorpay_order_id b = Unconvertible \<or> razorpay_payment_id b = Unconvertible))) \<and>
   (toText (razorpay_order_id b) = Some order_text \<and>
    toText (razorpay_payment_id b) = Some payment_text \<and>
    razorpay_signature b \<noteq> Str (hmac_sha256_hex key (order_text @ ''|'' @ payment_text)) \<longrightarrow>
       verify_payment (Some key) (Some b)
         = \<lparr>status = 400, success = False, message = ''Payment verification failed'',
            orderId = Absent, paymentId = Absent\<rparr>) \<and>
   (razorpay_order_id b \<noteq> Unconvertible \<and> razorpay_payment_id b \<noteq> Unconvertible \<and>
    razorpay_signature b = Absent \<longrightarrow>
       status (verify_payment (Some key) (Some b)) = 400)"
proof -
  have conv: "v \<noteq> Unconvertible \<Longrightarrow> \<exists>text. toText v = Some text" for v
    by (cases v) simp_all
  have mismatch: "toText (razorpay_order_id b) = Some order_text \<and>
    toText (razorpay_payment_id b) = Some payment_text \<and>
    razorpay_signature b \<noteq> Str (hmac_sha256_hex key (order_text @ ''|'' @ payment_text)) \<longrightarrow>
       verify_payment (Some key) (Some b)
         = \<lparr>status = 400, success = False, message = ''Payment verification failed'',
            orderId = Absent, paymentId = Absent\<rparr>"
    by (simp add: verify_payment_def Let_def)
  have nosig: "razorpay_order_id b \<noteq> Unconvertible \<and> razorpay_payment_id b \<noteq> Unconvertible \<and>
    razorpay_signature b = Absent \<longrightarrow>
       status (verify_payment (Some key) (Some b)) = 400"
    using conv[of "razorpay_order_id b"] conv[of "razorpay_payment_id b"]
    by (auto simp: verify_payment_def Let_def)
  from verify_payment_status mismatch nosig show ?thesis by blast
qed

theorem verify_payment_errors_witness:
  "status (verify_payment None
     (Some \<lparr>razorpay_order_id = Str ''order_ABC123'', razorpay_payment_id = Str ''pay_XYZ789'',
            razorpay_signature = Str ''8ab882b69975648bd036bb84b853484100f7addce5cead23e8a2d9ffe5ba21c8''\<rparr>)) = 500 \<and>
   status (verify_payment (Some ''testsecret'')
     (Some \<lparr>razorpay_order_id = Absent, razorpay_payment_id = Str ''pay_XYZ789'',
            razorpay_signature = Absent\<rparr>)) = 400"
  using verify_payment_errors [of None
     "Some \<lparr>razorpay_order_id = Str ''order_ABC123'', razorpay_payment_id = Str ''pay_XYZ789'',
            razorpay_signature = Str ''8ab882b69975648bd036bb84b853484100f7addce5cead23e8a2d9ffe5ba21c8''\<rparr>"
     "\<lparr>razorpay_order_id = Absent, razorpay_payment_id = Str ''pay_XYZ789'',
       razorpay_signature = Absent\<rparr>" "''undefined''" "''pay_XYZ789''" "''testsecret''"]
  by simp

text \<open>
  Claim C2 as stated fails twice. For a missing signature field, with the secret
  configured, the outcome is the verdict that is not authentic, not an error. And with no
  field missing and the secret configured, an order id that cannot be converted to a
  string gives the error outcome.
\<close>

theorem verify_payment_missing_signature_counterexample:
  "verify_payment (Some ''testsecret'')
     (Some \<lparr>razorpay_order_id = Str ''order_ABC123'', razorpay_payment_id = Str ''pay_XYZ789'',
            razorpay_signature = Absent\<rparr>)
   = \<lparr>status = 400, success = False, message = ''Payment verification failed'',
      orderId = Absent, paymentId = Absent\<rparr> \<and>
   verify_payment (Some ''testsecret'')
     (Some \<lparr>razorpay_order_id = Unconvertible, razorpay_payment_id = Str ''pay_XYZ789'',
            razorpay_signature = Str ''8ab882b69975648bd036bb84b853484100f7addce5cead23e8a2d9ffe5ba21c8''\<rparr>)
   = \<lparr>status = 500, success = False, message = ''Internal server error during verification'',
      orderId = Absent, paymentId = Absent\<rparr>"
  by (simp add: verify_payment_def verificationError_def Let_def)

end
